theory Spec2Isabelle
  imports Main "HOL-Library.Multiset"
begin

section \<open>The attendance store of database_manager.py\<close>

text \<open>
  The class \<^verbatim>\<open>DatabaseManager\<close> keeps four relations in one SQLite file and runs every
  operation under one lock, as open / execute / commit / close. An operation is therefore
  one atomic step on the content of that file, and it is modelled as a function from the
  file's content to a result and the new content. The clock readings an operation makes
  (\<^verbatim>\<open>date.today()\<close>, \<^verbatim>\<open>datetime.now()\<close>, SQLite's \<^verbatim>\<open>CURRENT_TIMESTAMP\<close>) are
  arguments of the function. The messages the handlers print are not part of the state.
\<close>

subsection \<open>Values\<close>

text \<open>
  A date is its day number (\<^verbatim>\<open>date.toordinal()\<close>) and a time stamp a number of clock
  ticks: sqlite3 stores both as ISO text, whose order as text is the order in time.
  \<^verbatim>\<open>date.today()\<close> is the date of the system clock, far above day 30, so that
  \<^verbatim>\<open>date.today() - timedelta(days=30)\<close> stays inside the range of \<^verbatim>\<open>date\<close>.
\<close>

type_synonym date = int
type_synonym datetime = int

text \<open>The exceptions the storage layer and the file copy raise; all are subclasses of
  \<^verbatim>\<open>Exception\<close>.\<close>

datatype exn = IntegrityError | DatabaseError | FileNotFoundError | SameFileError

definition bind_exn :: "exn + 'a \<Rightarrow> ('a \<Rightarrow> exn + 'b) \<Rightarrow> exn + 'b" where
  "bind_exn r k = (case r of Inl e \<Rightarrow> Inl e | Inr v \<Rightarrow> k v)"

text \<open>\<^verbatim>\<open>try: body  except Exception as e: print(...); return d\<close>\<close>

definition except_Exception :: "exn + 'a \<Rightarrow> 'a \<Rightarrow> exn + 'a" where
  "except_Exception body d = (case body of Inl e \<Rightarrow> Inr d | Inr v \<Rightarrow> Inr v)"

text \<open>Python's truth value of an optional string argument: \<^verbatim>\<open>None\<close> and \<^verbatim>\<open>""\<close> are
  false.\<close>

fun truthy :: "string option \<Rightarrow> bool" where
  "truthy None = False"
| "truthy (Some s) = (s \<noteq> [])"

subsection \<open>The four relations\<close>

record student =
  st_student_id :: string
  st_name :: string
  st_email :: string
  st_phone :: string
  st_department :: string
  st_created_at :: datetime

record course =
  co_course_id :: string
  co_course_name :: string
  co_instructor :: string
  co_schedule :: string
  co_created_at :: datetime

record attendance_row =
  at_id :: nat
  at_student_id :: string
  at_date :: date
  at_time_in :: "datetime option"
  at_time_out :: "datetime option"
  at_verification_method :: string
  at_course_id :: "string option"
  at_created_at :: datetime

record course_attendance_row =
  ca_id :: nat
  ca_student_id :: string
  ca_course_id :: string
  ca_date :: date
  ca_time_in :: "datetime option"
  ca_time_out :: "datetime option"
  ca_verification_method :: string
  ca_created_at :: datetime

text \<open>
  A relation is the list of its rows in rowid order. The two counters are the entries of
  \<^verbatim>\<open>sqlite_sequence\<close> that \<^verbatim>\<open>AUTOINCREMENT\<close> keeps for the two attendance relations.
  The declared foreign keys are not in the model: sqlite3 leaves them unenforced unless
  \<^verbatim>\<open>PRAGMA foreign_keys\<close> is switched on, and the code never does.
\<close>

record database =
  students :: "student list"
  attendance :: "attendance_row list"
  courses :: "course list"
  course_attendance :: "course_attendance_row list"
  attendance_seq :: nat
  course_attendance_seq :: nat

text \<open>The file at \<^verbatim>\<open>self.db_path\<close>: a database with the four relations, or a file that
  sqlite3 cannot use (\<^verbatim>\<open>restore_database\<close> copies any file over it).\<close>

datatype db_file = SQLite database | NotADatabase

definition empty_database :: database where
  "empty_database = \<lparr>students = [], attendance = [], courses = [], course_attendance = [],
     attendance_seq = 0, course_attendance_seq = 0\<rparr>"

text \<open>\<^verbatim>\<open>init_database\<close>: \<^verbatim>\<open>CREATE TABLE IF NOT EXISTS\<close> four times; sqlite3 creates a
  missing file. It runs outside any \<^verbatim>\<open>try\<close>.\<close>

definition init_database :: "db_file option \<Rightarrow> exn + db_file" where
  "init_database f = (case f of
       None \<Rightarrow> Inr (SQLite empty_database)
     | Some (SQLite db) \<Rightarrow> Inr (SQLite db)
     | Some NotADatabase \<Rightarrow> Inl DatabaseError)"

subsection \<open>SQL statements\<close>

definition connect :: "db_file \<Rightarrow> exn + database" where
  "connect f = (case f of SQLite db \<Rightarrow> Inr db | NotADatabase \<Rightarrow> Inl DatabaseError)"

text \<open>The rowid of an \<^verbatim>\<open>AUTOINCREMENT\<close> insert: one more than the largest rowid the
  relation has ever held.\<close>

definition next_rowid :: "nat \<Rightarrow> nat list \<Rightarrow> nat" where
  "next_rowid seq ids = Suc (max seq (fold max ids 0))"

definition insert_student :: "student \<Rightarrow> database \<Rightarrow> exn + database" where
  "insert_student s db =
     (if st_student_id s \<in> set (map st_student_id (students db)) then Inl IntegrityError
      else Inr (db\<lparr>students := students db @ [s]\<rparr>))"

definition insert_course :: "course \<Rightarrow> database \<Rightarrow> exn + database" where
  "insert_course c db =
     (if co_course_id c \<in> set (map co_course_id (courses db)) then Inl IntegrityError
      else Inr (db\<lparr>courses := courses db @ [c]\<rparr>))"

text \<open>\<^verbatim>\<open>INSERT INTO attendance (student_id, date, time_in, verification_method, course_id)\<close>
  under \<^verbatim>\<open>UNIQUE(student_id, date)\<close>; \<^verbatim>\<open>time_out\<close> is left \<^verbatim>\<open>NULL\<close>.\<close>

definition insert_attendance ::
  "datetime \<Rightarrow> string \<Rightarrow> date \<Rightarrow> datetime \<Rightarrow> string \<Rightarrow> string option \<Rightarrow> database \<Rightarrow> exn + database"
where
  "insert_attendance stamp sid d t m c db =
     (if (sid, d) \<in> set (map (\<lambda>r. (at_student_id r, at_date r)) (attendance db))
      then Inl IntegrityError
      else let i = next_rowid (attendance_seq db) (map at_id (attendance db)) in
        Inr (db\<lparr>attendance := attendance db @
                 [\<lparr>at_id = i, at_student_id = sid, at_date = d, at_time_in = Some t,
                   at_time_out = None, at_verification_method = m, at_course_id = c,
                   at_created_at = stamp\<rparr>],
               attendance_seq := i\<rparr>))"

text \<open>\<^verbatim>\<open>INSERT INTO course_attendance (student_id, course_id, date, time_in,
  verification_method)\<close> under \<^verbatim>\<open>UNIQUE(student_id, course_id, date)\<close>.\<close>

definition insert_course_attendance ::
  "datetime \<Rightarrow> string \<Rightarrow> string \<Rightarrow> date \<Rightarrow> datetime \<Rightarrow> string \<Rightarrow> database \<Rightarrow> exn + database"
where
  "insert_course_attendance stamp sid c d t m db =
     (if (sid, c, d) \<in> set (map (\<lambda>r. (ca_student_id r, ca_course_id r, ca_date r))
                              (course_attendance db))
      then Inl IntegrityError
      else let i = next_rowid (course_attendance_seq db) (map ca_id (course_attendance db)) in
        Inr (db\<lparr>course_attendance := course_attendance db @
                 [\<lparr>ca_id = i, ca_student_id = sid, ca_course_id = c, ca_date = d,
                   ca_time_in = Some t, ca_time_out = None, ca_verification_method = m,
                   ca_created_at = stamp\<rparr>],
               course_attendance_seq := i\<rparr>))"

text \<open>\<^verbatim>\<open>UPDATE attendance SET time_out = ? WHERE id = ?\<close>\<close>

definition update_time_out :: "datetime \<Rightarrow> nat \<Rightarrow> database \<Rightarrow> database" where
  "update_time_out t i db =
     db\<lparr>attendance := map (\<lambda>r. if at_id r = i then r\<lparr>at_time_out := Some t\<rparr> else r)
                          (attendance db)\<rparr>"

text \<open>\<^verbatim>\<open>UPDATE course_attendance SET time_out = ?
  WHERE student_id = ? AND course_id = ? AND date = ?\<close>\<close>

definition update_course_time_out ::
  "datetime \<Rightarrow> string \<Rightarrow> string \<Rightarrow> date \<Rightarrow> database \<Rightarrow> database" where
  "update_course_time_out t sid c d db =
     db\<lparr>course_attendance :=
          map (\<lambda>r. if ca_student_id r = sid \<and> ca_course_id r = c \<and> ca_date r = d
                   then r\<lparr>ca_time_out := Some t\<rparr> else r)
              (course_attendance db)\<rparr>"

subsection \<open>Students and courses\<close>

definition add_student_try ::
  "datetime \<Rightarrow> string \<Rightarrow> string \<Rightarrow> string \<Rightarrow> string \<Rightarrow> string \<Rightarrow> db_file \<Rightarrow> exn + bool \<times> db_file"
where
  "add_student_try stamp student_id name email phone department f =
     bind_exn (connect f) (\<lambda>db.
     bind_exn (insert_student \<lparr>st_student_id = student_id, st_name = name, st_email = email,
                 st_phone = phone, st_department = department, st_created_at = stamp\<rparr> db)
       (\<lambda>db'. Inr (True, SQLite db')))"

text \<open>Both handlers of \<^verbatim>\<open>add_student\<close> (\<^verbatim>\<open>sqlite3.IntegrityError\<close>, then
  \<^verbatim>\<open>Exception\<close>) return \<^verbatim>\<open>False\<close>; nothing was committed.\<close>

definition add_student ::
  "datetime \<Rightarrow> string \<Rightarrow> string \<Rightarrow> string \<Rightarrow> string \<Rightarrow> string \<Rightarrow> db_file \<Rightarrow> exn + bool \<times> db_file"
where
  "add_student stamp student_id name email phone department f =
     (case add_student_try stamp student_id name email phone department f of
        Inl IntegrityError \<Rightarrow> Inr (False, f)
      | Inl e \<Rightarrow> Inr (False, f)
      | Inr r \<Rightarrow> Inr r)"



text \<open>\<^verbatim>\<open>ORDER BY\<close>: the rows sorted by the given order; rows that compare equal keep
  the order of the scan (SQL leaves their order open).\<close>

fun order_insert :: "('a \<Rightarrow> 'a \<Rightarrow> bool) \<Rightarrow> 'a \<Rightarrow> 'a list \<Rightarrow> 'a list" where
  "order_insert le x [] = [x]"
| "order_insert le x (y # ys) = (if le x y then x # y # ys else y # order_insert le x ys)"

definition order_by :: "('a \<Rightarrow> 'a \<Rightarrow> bool) \<Rightarrow> 'a list \<Rightarrow> 'a list" where
  "order_by le xs = foldr (order_insert le) xs []"


definition add_course_try ::
  "datetime \<Rightarrow> string \<Rightarrow> string \<Rightarrow> string \<Rightarrow> string \<Rightarrow> db_file \<Rightarrow> exn + bool \<times> db_file"
where
  "add_course_try stamp course_id course_name instructor schedule f =
     bind_exn (connect f) (\<lambda>db.
     bind_exn (insert_course \<lparr>co_course_id = course_id, co_course_name = course_name,
                 co_instructor = instructor, co_schedule = schedule, co_created_at = stamp\<rparr> db)
       (\<lambda>db'. Inr (True, SQLite db')))"

definition add_course ::
  "datetime \<Rightarrow> string \<Rightarrow> string \<Rightarrow> string \<Rightarrow> string \<Rightarrow> db_file \<Rightarrow> exn + bool \<times> db_file"
where
  "add_course stamp course_id course_name instructor schedule f =
     (case add_course_try stamp course_id course_name instructor schedule f of
        Inl IntegrityError \<Rightarrow> Inr (False, f)
      | Inl e \<Rightarrow> Inr (False, f)
      | Inr r \<Rightarrow> Inr r)"


text \<open>\<^verbatim>\<open>delete_student\<close>: three \<^verbatim>\<open>DELETE\<close>s, then one commit.\<close>

definition delete_student :: "string \<Rightarrow> db_file \<Rightarrow> exn + bool \<times> db_file" where
  "delete_student student_id f =
     except_Exception
       (bind_exn (connect f) (\<lambda>db.
          let db1 = db\<lparr>attendance :=
                       filter (\<lambda>r. at_student_id r \<noteq> student_id) (attendance db)\<rparr>;
              db2 = db1\<lparr>course_attendance :=
                       filter (\<lambda>r. ca_student_id r \<noteq> student_id) (course_attendance db1)\<rparr>;
              db3 = db2\<lparr>students :=
                       filter (\<lambda>s. st_student_id s \<noteq> student_id) (students db2)\<rparr>
          in Inr (True, SQLite db3)))
       (False, f)"

text \<open>\<^verbatim>\<open>delete_course\<close>: a \<^verbatim>\<open>DELETE\<close>, an \<^verbatim>\<open>UPDATE ... SET course_id = NULL\<close>, a
  \<^verbatim>\<open>DELETE\<close>, then one commit.\<close>

definition delete_course :: "string \<Rightarrow> db_file \<Rightarrow> exn + bool \<times> db_file" where
  "delete_course course_id f =
     except_Exception
       (bind_exn (connect f) (\<lambda>db.
          let db1 = db\<lparr>course_attendance :=
                       filter (\<lambda>r. ca_course_id r \<noteq> course_id) (course_attendance db)\<rparr>;
              db2 = db1\<lparr>attendance :=
                       map (\<lambda>r. if at_course_id r = Some course_id
                                then r\<lparr>at_course_id := None\<rparr> else r) (attendance db1)\<rparr>;
              db3 = db2\<lparr>courses :=
                       filter (\<lambda>c. co_course_id c \<noteq> course_id) (courses db2)\<rparr>
          in Inr (True, SQLite db3)))
       (False, f)"

subsection \<open>Recording attendance\<close>

text \<open>The clock readings of one \<^verbatim>\<open>record_attendance\<close> call: \<^verbatim>\<open>date.today()\<close>,
  \<^verbatim>\<open>datetime.now()\<close>, and \<^verbatim>\<open>CURRENT_TIMESTAMP\<close> at each of the two \<^verbatim>\<open>INSERT\<close>s.\<close>

record clock =
  clk_today :: date
  clk_now :: datetime
  clk_stamp :: datetime
  clk_stamp_course :: datetime

definition record_attendance_try ::
  "clock \<Rightarrow> string \<Rightarrow> string \<Rightarrow> string option \<Rightarrow> db_file \<Rightarrow> exn + bool \<times> db_file"
where
  "record_attendance_try clk student_id verification_method course_id f =
     bind_exn (connect f) (\<lambda>db.
       let today = clk_today clk; current_time = clk_now clk in
       case find (\<lambda>r. at_student_id r = student_id \<and> at_date r = today) (attendance db) of
         Some existing_record \<Rightarrow>
           let db1 = update_time_out current_time (at_id existing_record) db;
               db2 = (if truthy course_id
                      then update_course_time_out current_time student_id (the course_id)
                             today db1
                      else db1)
           in Inr (False, SQLite db2)
       | None \<Rightarrow>
           bind_exn (insert_attendance (clk_stamp clk) student_id today current_time
                       verification_method course_id db) (\<lambda>db1.
           bind_exn (if truthy course_id
                     then insert_course_attendance (clk_stamp_course clk) student_id
                            (the course_id) today current_time verification_method db1
                     else Inr db1) (\<lambda>db2.
           Inr (True, SQLite db2))))"

text \<open>An exception leaves the connection without a commit, so the file keeps its
  content, and the handler returns \<^verbatim>\<open>False\<close>.\<close>

definition record_attendance ::
  "clock \<Rightarrow> string \<Rightarrow> string \<Rightarrow> string option \<Rightarrow> db_file \<Rightarrow> exn + bool \<times> db_file"
where
  "record_attendance clk student_id verification_method course_id f =
     except_Exception
       (record_attendance_try clk student_id verification_method course_id f)
       (False, f)"

subsection \<open>The attendance report\<close>

text \<open>The tuple \<^verbatim>\<open>(a.time_in, a.student_id, s.name, a.date, a.verification_method,
  c.course_name)\<close> of one result row.\<close>

record report_row =
  rr_time_in :: "datetime option"
  rr_student_id :: string
  rr_name :: string
  rr_date :: date
  rr_verification_method :: string
  rr_course_name :: "string option"

text \<open>\<^verbatim>\<open>LEFT JOIN courses c ON a.course_id = c.course_id\<close>: every course that matches,
  or one \<^verbatim>\<open>NULL\<close> course when none does (a \<^verbatim>\<open>NULL\<close> course_id matches none).\<close>

definition left_join_courses :: "attendance_row \<Rightarrow> course list \<Rightarrow> course option list" where
  "left_join_courses a cs =
     (case filter (\<lambda>c. at_course_id a = Some (co_course_id c)) cs of
        [] \<Rightarrow> [None]
      | ms \<Rightarrow> map Some ms)"

text \<open>\<^verbatim>\<open>FROM attendance a JOIN students s ON a.student_id = s.student_id LEFT JOIN ...\<close>\<close>

definition report_from :: "database \<Rightarrow> (attendance_row \<times> student \<times> course option) list" where
  "report_from db =
     concat (map (\<lambda>a.
       concat (map (\<lambda>s. map (\<lambda>c. (a, s, c)) (left_join_courses a (courses db)))
                   (filter (\<lambda>s. at_student_id a = st_student_id s) (students db))))
       (attendance db))"

text \<open>The \<^verbatim>\<open>WHERE\<close> clause the code builds: a condition is appended when its argument is
  true in Python's sense. A \<^verbatim>\<open>date\<close> object is always true; an empty string is not.\<close>

definition report_where ::
  "date option \<Rightarrow> date option \<Rightarrow> string option \<Rightarrow> string option \<Rightarrow> attendance_row \<Rightarrow> bool"
where
  "report_where start_date end_date student_id course_id a =
     ((case start_date of None \<Rightarrow> True | Some d \<Rightarrow> at_date a \<ge> d) \<and>
      (case end_date of None \<Rightarrow> True | Some d \<Rightarrow> at_date a \<le> d) \<and>
      (if truthy student_id then at_student_id a = the student_id else True) \<and>
      (if truthy course_id then at_course_id a = Some (the course_id) else True))"

definition report_select :: "attendance_row \<times> student \<times> course option \<Rightarrow> report_row" where
  "report_select j = (case j of (a, s, c) \<Rightarrow>
     \<lparr>rr_time_in = at_time_in a, rr_student_id = at_student_id a, rr_name = st_name s,
      rr_date = at_date a, rr_verification_method = at_verification_method a,
      rr_course_name = map_option co_course_name c\<rparr>)"

text \<open>SQLite's order on a nullable column: \<^verbatim>\<open>NULL\<close> is below every value.\<close>

fun sql_le :: "datetime option \<Rightarrow> datetime option \<Rightarrow> bool" where
  "sql_le None y = True"
| "sql_le (Some x) None = False"
| "sql_le (Some x) (Some y) = (x \<le> y)"

text \<open>\<^verbatim>\<open>ORDER BY a.time_in DESC\<close>: \<open>x\<close> may stand before \<open>y\<close> when its time_in is
  not below that of \<open>y\<close>.\<close>

definition time_in_desc :: "report_row \<Rightarrow> report_row \<Rightarrow> bool" where
  "time_in_desc x y = sql_le (rr_time_in y) (rr_time_in x)"

definition get_attendance_report ::
  "date option \<Rightarrow> date option \<Rightarrow> string option \<Rightarrow> string option \<Rightarrow> db_file \<Rightarrow> exn + report_row list"
where
  "get_attendance_report start_date end_date student_id course_id f =
     except_Exception
       (bind_exn (connect f) (\<lambda>db.
          Inr (order_by time_in_desc
                 (map report_select
                    (filter (\<lambda>j. report_where start_date end_date student_id course_id (fst j))
                       (report_from db))))))
       []"

subsection \<open>Statistics of one student\<close>

text \<open>The dict the function returns; the empty dict of the handler is \<open>None\<close>.\<close>

record statistics =
  total_attendance :: nat
  recent_attendance :: nat
  method_stats :: "string \<rightharpoonup> nat"

text \<open>\<^verbatim>\<open>SELECT verification_method, COUNT(*) ... GROUP BY verification_method\<close>: one pair
  for each method that occurs.\<close>

definition group_count :: "string list \<Rightarrow> (string \<times> nat) list" where
  "group_count ms = map (\<lambda>m. (m, count_list ms m)) (remdups ms)"

text \<open>\<^verbatim>\<open>dict(pairs)\<close>: a later pair wins over an earlier one with the same key.\<close>

definition dict :: "('k \<times> 'v) list \<Rightarrow> ('k \<rightharpoonup> 'v)" where
  "dict ps = map_of (rev ps)"

definition get_student_statistics :: "date \<Rightarrow> string \<Rightarrow> db_file \<Rightarrow> exn + statistics option" where
  "get_student_statistics today student_id f =
     except_Exception
       (bind_exn (connect f) (\<lambda>db.
          let total = length (filter (\<lambda>r. at_student_id r = student_id) (attendance db));
              stats = dict (group_count (map at_verification_method
                        (filter (\<lambda>r. at_student_id r = student_id) (attendance db))));
              thirty_days_ago = today - 30;
              recent = length (filter (\<lambda>r. at_student_id r = student_id \<and>
                                           at_date r \<ge> thirty_days_ago) (attendance db))
          in Inr (Some \<lparr>total_attendance = total, recent_attendance = recent,
                        method_stats = stats\<rparr>)))
       None"

subsection \<open>Backup and restore\<close>





subsection \<open>Store states\<close>

text \<open>One operation that writes to the relations takes the store from \<open>db\<close> to
  \<open>db'\<close>. The reading operations return no new content.\<close>

inductive step :: "database \<Rightarrow> database \<Rightarrow> bool" where
  step_add_student:
    "add_student stamp sid name email phone dept (SQLite db) = Inr (b, SQLite db')
     \<Longrightarrow> step db db'"
| step_add_course:
    "add_course stamp cid cname instructor schedule (SQLite db) = Inr (b, SQLite db')
     \<Longrightarrow> step db db'"
| step_delete_student:
    "delete_student sid (SQLite db) = Inr (b, SQLite db') \<Longrightarrow> step db db'"
| step_delete_course:
    "delete_course cid (SQLite db) = Inr (b, SQLite db') \<Longrightarrow> step db db'"
| step_record_attendance:
    "record_attendance clk sid m c (SQLite db) = Inr (b, SQLite db') \<Longrightarrow> step db db'"

text \<open>The states the operations reach from the store that \<open>init_database\<close> creates.\<close>

definition reachable :: "database \<Rightarrow> bool" where
  "reachable db = rtranclp step empty_database db"

section \<open>Store states and the specification's words\<close>

subsection \<open>Keys and invariants\<close>

text \<open>The columns of \<^verbatim>\<open>UNIQUE(student_id, date)\<close> and of
  \<^verbatim>\<open>UNIQUE(student_id, course_id, date)\<close>.\<close>

definition attendance_key :: "attendance_row \<Rightarrow> string \<times> date" where
  "attendance_key r = (at_student_id r, at_date r)"

definition course_attendance_key :: "course_attendance_row \<Rightarrow> string \<times> string \<times> date" where
  "course_attendance_key r = (ca_student_id r, ca_course_id r, ca_date r)"

text \<open>
  What holds of every store the operations reach: the primary keys and the two
  \<^verbatim>\<open>UNIQUE\<close> constraints that \<open>init_database\<close> declares, no rowid above its
  \<^verbatim>\<open>AUTOINCREMENT\<close> counter, and an attendance row of the same student and date for every
  course_attendance row.
\<close>

definition store_inv :: "database \<Rightarrow> bool" where
  "store_inv db =
     (distinct (map st_student_id (students db)) \<and>
      distinct (map co_course_id (courses db)) \<and>
      distinct (map at_id (attendance db)) \<and>
      distinct (map attendance_key (attendance db)) \<and>
      list_all (\<lambda>r. at_id r \<le> attendance_seq db) (attendance db) \<and>
      distinct (map ca_id (course_attendance db)) \<and>
      distinct (map course_attendance_key (course_attendance db)) \<and>
      list_all (\<lambda>r. ca_id r \<le> course_attendance_seq db) (course_attendance db) \<and>
      list_all (\<lambda>r. (ca_student_id r, ca_date r) \<in> set (map attendance_key (attendance db)))
        (course_attendance db))"

text \<open>Two versions of one attendance row: all fields but time_out and course_id
  agree.\<close>

definition same_fixed_fields :: "attendance_row \<Rightarrow> attendance_row \<Rightarrow> bool" where
  "same_fixed_fields r r' =
     (at_id r' = at_id r \<and> at_student_id r' = at_student_id r \<and> at_date r' = at_date r \<and>
      at_time_in r' = at_time_in r \<and> at_verification_method r' = at_verification_method r \<and>
      at_created_at r' = at_created_at r)"

text \<open>From \<open>db\<close> to \<open>db'\<close> no rowid is used again, and every row of \<open>db'\<close> that
  is as old as \<open>db\<close> is a version of a row of \<open>db\<close>.\<close>

definition rows_kept :: "database \<Rightarrow> database \<Rightarrow> bool" where
  "rows_kept db db' =
     (attendance_seq db \<le> attendance_seq db' \<and>
      list_all (\<lambda>r'. at_id r' \<le> attendance_seq db \<longrightarrow>
                  list_ex (\<lambda>r. same_fixed_fields r r') (attendance db))
        (attendance db'))"

subsection \<open>The report in the words of the specification\<close>

text \<open>
  The filters are conjunctive and an omitted filter imposes no constraint; an empty
  string for student_id or course_id counts as omitted.
\<close>

definition filters_hold ::
  "date option \<Rightarrow> date option \<Rightarrow> string option \<Rightarrow> string option \<Rightarrow> attendance_row \<Rightarrow> bool"
where
  "filters_hold start_date end_date student_id course_id a =
     ((case start_date of None \<Rightarrow> True | Some d \<Rightarrow> d \<le> at_date a) \<and>
      (case end_date of None \<Rightarrow> True | Some d \<Rightarrow> at_date a \<le> d) \<and>
      (case student_id of None \<Rightarrow> True | Some i \<Rightarrow> i = [] \<or> at_student_id a = i) \<and>
      (case course_id of None \<Rightarrow> True | Some c \<Rightarrow> c = [] \<or> at_course_id a = Some c))"

text \<open>An attendance row joined with its student (required) and its course (optional:
  an absent course yields a null course name, not a dropped row).\<close>

definition joined_row :: "database \<Rightarrow> attendance_row \<Rightarrow> report_row option" where
  "joined_row db a =
     (case find (\<lambda>s. st_student_id s = at_student_id a) (students db) of
        None \<Rightarrow> None
      | Some s \<Rightarrow>
          Some \<lparr>rr_time_in = at_time_in a, rr_student_id = at_student_id a, rr_name = st_name s,
                rr_date = at_date a, rr_verification_method = at_verification_method a,
                rr_course_name =
                  (case at_course_id a of
                     None \<Rightarrow> None
                   | Some c \<Rightarrow> map_option co_course_name
                                (find (\<lambda>x. co_course_id x = c) (courses db)))\<rparr>)"

definition report_rows_spec ::
  "date option \<Rightarrow> date option \<Rightarrow> string option \<Rightarrow> string option \<Rightarrow> database \<Rightarrow> report_row list"
where
  "report_rows_spec start_date end_date student_id course_id db =
     List.map_filter (joined_row db)
       (filter (filters_hold start_date end_date student_id course_id) (attendance db))"

subsection \<open>Example stores\<close>

text \<open>Three clock readings: a morning and an evening of day 100, and day 101.\<close>

definition cx_clock :: clock where
  "cx_clock = \<lparr>clk_today = 100, clk_now = 900, clk_stamp = 7, clk_stamp_course = 8\<rparr>"

definition clock_evening :: clock where
  "clock_evening = \<lparr>clk_today = 100, clk_now = 1700, clk_stamp = 9, clk_stamp_course = 9\<rparr>"


text \<open>The empty store after student S1 checked in for course C1, and that store after
  \<open>delete_course\<close> of C1.\<close>

definition cx_row :: attendance_row where
  "cx_row = \<lparr>at_id = 1, at_student_id = ''S1'', at_date = 100, at_time_in = Some 900,
     at_time_out = None, at_verification_method = ''id_pass'', at_course_id = Some ''C1'',
     at_created_at = 7\<rparr>"

definition cx_course_row :: course_attendance_row where
  "cx_course_row = \<lparr>ca_id = 1, ca_student_id = ''S1'', ca_course_id = ''C1'', ca_date = 100,
     ca_time_in = Some 900, ca_time_out = None, ca_verification_method = ''id_pass'',
     ca_created_at = 8\<rparr>"

definition cx_checked_in :: database where
  "cx_checked_in = \<lparr>students = [], attendance = [cx_row], courses = [],
     course_attendance = [cx_course_row], attendance_seq = 1, course_attendance_seq = 1\<rparr>"

definition cx_course_deleted :: database where
  "cx_course_deleted = \<lparr>students = [], attendance = [cx_row\<lparr>at_course_id := None\<rparr>],
     courses = [], course_attendance = [], attendance_seq = 1, course_attendance_seq = 1\<rparr>"

text \<open>A store with two students, one course, an attendance row that names a course
  the store does not hold, and an attendance row of a student S9 the store does not
  hold.\<close>

definition ex_store :: database where
  "ex_store = \<lparr>
     students =
       [\<lparr>st_student_id = ''S1'', st_name = ''Ann'', st_email = ''ann@x'', st_phone = ''555'',
         st_department = ''Math'', st_created_at = 1\<rparr>,
        \<lparr>st_student_id = ''S2'', st_name = ''Bob'', st_email = ''bob@x'', st_phone = ''556'',
         st_department = ''Art'', st_created_at = 2\<rparr>],
     attendance =
       [\<lparr>at_id = 1, at_student_id = ''S1'', at_date = 60, at_time_in = Some 500,
         at_time_out = Some 560, at_verification_method = ''id_pass'',
         at_course_id = Some ''C9'', at_created_at = 3\<rparr>,
        \<lparr>at_id = 2, at_student_id = ''S1'', at_date = 100, at_time_in = Some 900,
         at_time_out = None, at_verification_method = ''id_pass'',
         at_course_id = Some ''C1'', at_created_at = 4\<rparr>,
        \<lparr>at_id = 3, at_student_id = ''S2'', at_date = 100, at_time_in = Some 930,
         at_time_out = None, at_verification_method = ''id_pass'',
         at_course_id = None, at_created_at = 5\<rparr>,
        \<lparr>at_id = 4, at_student_id = ''S9'', at_date = 100, at_time_in = Some 950,
         at_time_out = None, at_verification_method = ''badge'',
         at_course_id = None, at_created_at = 6\<rparr>],
     courses =
       [\<lparr>co_course_id = ''C1'', co_course_name = ''Algebra'', co_instructor = ''Dr. A'',
         co_schedule = ''Mon'', co_created_at = 1\<rparr>],
     course_attendance =
       [\<lparr>ca_id = 1, ca_student_id = ''S1'', ca_course_id = ''C1'', ca_date = 100,
         ca_time_in = Some 900, ca_time_out = None, ca_verification_method = ''id_pass'',
         ca_created_at = 4\<rparr>],
     attendance_seq = 4, course_attendance_seq = 1\<rparr>"

section \<open>Running the operations\<close>

text \<open>What each operation returns on a usable store, with the exceptions resolved.\<close>

lemma connect_SQLite: "connect (SQLite db) = Inr db"
  by (simp add: connect_def)

lemma connect_NotADatabase: "connect NotADatabase = Inl DatabaseError"
  by (simp add: connect_def)

lemma bind_exn_Inr: "bind_exn (Inr v) k = k v"
  by (simp add: bind_exn_def)

lemma bind_exn_Inl: "bind_exn (Inl e) k = Inl e"
  by (simp add: bind_exn_def)

lemma except_Exception_Inr: "except_Exception (Inr v) d = Inr v"
  by (simp add: except_Exception_def)

lemma except_Exception_Inl: "except_Exception (Inl e) d = Inr d"
  by (simp add: except_Exception_def)

lemmas run_simps = connect_SQLite connect_NotADatabase bind_exn_Inr bind_exn_Inl
  except_Exception_Inr except_Exception_Inl

lemma add_student_SQLite:
  "add_student stamp sid n e p d (SQLite db) =
     (if sid \<in> set (map st_student_id (students db)) then Inr (False, SQLite db)
      else Inr (True, SQLite (db\<lparr>students := students db @
             [\<lparr>st_student_id = sid, st_name = n, st_email = e, st_phone = p,
               st_department = d, st_created_at = stamp\<rparr>]\<rparr>)))"
  by (simp add: add_student_def add_student_try_def insert_student_def run_simps)

lemma add_course_SQLite:
  "add_course stamp cid n i s (SQLite db) =
     (if cid \<in> set (map co_course_id (courses db)) then Inr (False, SQLite db)
      else Inr (True, SQLite (db\<lparr>courses := courses db @
             [\<lparr>co_course_id = cid, co_course_name = n, co_instructor = i,
               co_schedule = s, co_created_at = stamp\<rparr>]\<rparr>)))"
  by (simp add: add_course_def add_course_try_def insert_course_def run_simps)

lemma delete_student_SQLite:
  "delete_student sid (SQLite db) =
     Inr (True, SQLite (db\<lparr>
       attendance := filter (\<lambda>r. at_student_id r \<noteq> sid) (attendance db),
       course_attendance := filter (\<lambda>r. ca_student_id r \<noteq> sid) (course_attendance db),
       students := filter (\<lambda>s. st_student_id s \<noteq> sid) (students db)\<rparr>))"
  by (simp add: delete_student_def run_simps)

lemma delete_course_SQLite:
  "delete_course cid (SQLite db) =
     Inr (True, SQLite (db\<lparr>
       course_attendance := filter (\<lambda>r. ca_course_id r \<noteq> cid) (course_attendance db),
       attendance := map (\<lambda>r. if at_course_id r = Some cid then r\<lparr>at_course_id := None\<rparr> else r)
                       (attendance db),
       courses := filter (\<lambda>c. co_course_id c \<noteq> cid) (courses db)\<rparr>))"
  by (simp add: delete_course_def run_simps)

lemma find_None_key:
  "(find (\<lambda>r. at_student_id r = sid \<and> at_date r = d) rs = None) = ((sid, d) \<notin> set (map attendance_key rs))"
  by (induction rs) (auto simp: attendance_key_def)

lemma record_attendance_toggle:
  assumes "find (\<lambda>r. at_student_id r = sid \<and> at_date r = clk_today clk) (attendance db) = Some r"
  shows "record_attendance clk sid m c (SQLite db) =
     Inr (False, SQLite (if truthy c
        then update_course_time_out (clk_now clk) sid (the c) (clk_today clk)
               (update_time_out (clk_now clk) (at_id r) db)
        else update_time_out (clk_now clk) (at_id r) db))"
  using assms
  by (simp add: record_attendance_def record_attendance_try_def run_simps Let_def)

lemma record_attendance_create:
  assumes "(sid, clk_today clk) \<notin> set (map attendance_key (attendance db))"
    and "truthy c \<Longrightarrow> (sid, the c, clk_today clk) \<notin>
           set (map (\<lambda>r. (ca_student_id r, ca_course_id r, ca_date r)) (course_attendance db))"
  shows "record_attendance clk sid m c (SQLite db) =
     Inr (True, SQLite (db\<lparr>
       attendance := attendance db @
         [\<lparr>at_id = next_rowid (attendance_seq db) (map at_id (attendance db)),
           at_student_id = sid, at_date = clk_today clk, at_time_in = Some (clk_now clk),
           at_time_out = None, at_verification_method = m, at_course_id = c,
           at_created_at = clk_stamp clk\<rparr>],
       attendance_seq := next_rowid (attendance_seq db) (map at_id (attendance db)),
       course_attendance := (if truthy c then course_attendance db @
         [\<lparr>ca_id = next_rowid (course_attendance_seq db) (map ca_id (course_attendance db)),
           ca_student_id = sid, ca_course_id = the c, ca_date = clk_today clk,
           ca_time_in = Some (clk_now clk), ca_time_out = None, ca_verification_method = m,
           ca_created_at = clk_stamp_course clk\<rparr>] else course_attendance db),
       course_attendance_seq := (if truthy c
          then next_rowid (course_attendance_seq db) (map ca_id (course_attendance db))
          else course_attendance_seq db)\<rparr>))"
proof -
  have none: "find (\<lambda>r. at_student_id r = sid \<and> at_date r = clk_today clk) (attendance db) = None"
    using assms(1) by (simp add: find_None_key)
  have ins: "insert_attendance (clk_stamp clk) sid (clk_today clk) (clk_now clk) m c db =
    Inr (db\<lparr>attendance := attendance db @
         [\<lparr>at_id = next_rowid (attendance_seq db) (map at_id (attendance db)),
           at_student_id = sid, at_date = clk_today clk, at_time_in = Some (clk_now clk),
           at_time_out = None, at_verification_method = m, at_course_id = c,
           at_created_at = clk_stamp clk\<rparr>],
       attendance_seq := next_rowid (attendance_seq db) (map at_id (attendance db))\<rparr>)"
    using assms(1) by (simp add: insert_attendance_def attendance_key_def Let_def)
  show ?thesis
  proof (cases "truthy c")
    case True
    with assms(2) show ?thesis
      by (simp add: record_attendance_def record_attendance_try_def run_simps none ins
          insert_course_attendance_def Let_def)
  next
    case False
    then show ?thesis
      by (simp add: record_attendance_def record_attendance_try_def run_simps none ins Let_def)
  qed
qed

section \<open>Invariants of the reachable stores\<close>

text \<open>\<open>init_database\<close> creates the empty store and leaves an existing store as it is.\<close>

lemma init_database_fresh: "init_database None = Inr (SQLite empty_database)"
  by (simp add: init_database_def)

lemma init_database_again: "init_database (Some (SQLite db)) = Inr (SQLite db)"
  by (simp add: init_database_def)

lemma fold_max_ge: "(a::nat) \<le> fold max ids a"
  by (induction ids arbitrary: a) (auto intro: order_trans [OF max.cobounded2])

lemma fold_max_mem: "(x::nat) \<in> set ids \<Longrightarrow> x \<le> fold max ids a"
proof (induction ids arbitrary: a)
  case Nil
  then show ?case by simp
next
  case (Cons i ids)
  show ?case
  proof (cases "x = i")
    case True
    have "i \<le> max i a" by simp
    also have "\<dots> \<le> fold max ids (max i a)" by (rule fold_max_ge)
    finally show ?thesis using True by simp
  next
    case False
    with Cons show ?thesis by simp
  qed
qed

lemma next_rowid_fresh: "x \<in> set ids \<Longrightarrow> x < next_rowid seq ids"
  using fold_max_mem [of x ids 0] by (simp add: next_rowid_def)

lemma next_rowid_seq: "seq < next_rowid seq ids"
  by (simp add: next_rowid_def)

lemma store_inv_empty: "store_inv empty_database"
  by (simp add: store_inv_def empty_database_def)

lemma store_inv_add_student:
  "store_inv db \<Longrightarrow> st_student_id s \<notin> set (map st_student_id (students db))
   \<Longrightarrow> store_inv (db\<lparr>students := students db @ [s]\<rparr>)"
  by (simp add: store_inv_def)

lemma store_inv_add_course:
  "store_inv db \<Longrightarrow> co_course_id c \<notin> set (map co_course_id (courses db))
   \<Longrightarrow> store_inv (db\<lparr>courses := courses db @ [c]\<rparr>)"
  by (simp add: store_inv_def)

lemma covered_filter:
  assumes "list_all (\<lambda>r. (ca_student_id r, ca_date r) \<in> set (map attendance_key as)) cs"
  shows "list_all (\<lambda>r. (ca_student_id r, ca_date r) \<in>
            set (map attendance_key (filter (\<lambda>r. at_student_id r \<noteq> sid) as)))
          (filter (\<lambda>r. ca_student_id r \<noteq> sid) cs)"
  using assms by (induction cs) (auto simp: attendance_key_def)

lemma store_inv_delete_student:
  assumes "store_inv db"
  shows "store_inv (db\<lparr>
       attendance := filter (\<lambda>r. at_student_id r \<noteq> sid) (attendance db),
       course_attendance := filter (\<lambda>r. ca_student_id r \<noteq> sid) (course_attendance db),
       students := filter (\<lambda>s. st_student_id s \<noteq> sid) (students db)\<rparr>)"
  using assms covered_filter [of "attendance db" "course_attendance db" sid]
  by (simp add: store_inv_def distinct_map_filter list_all_iff)

lemma null_course_comp:
  "at_id \<circ> (\<lambda>r. if at_course_id r = Some cid then r\<lparr>at_course_id := None\<rparr> else r) = at_id"
  "attendance_key \<circ> (\<lambda>r. if at_course_id r = Some cid then r\<lparr>at_course_id := None\<rparr> else r)
     = attendance_key"
  by (simp_all add: fun_eq_iff attendance_key_def)

lemma store_inv_delete_course:
  assumes "store_inv db"
  shows "store_inv (db\<lparr>
       course_attendance := filter (\<lambda>r. ca_course_id r \<noteq> cid) (course_attendance db),
       attendance := map (\<lambda>r. if at_course_id r = Some cid then r\<lparr>at_course_id := None\<rparr> else r)
                       (attendance db),
       courses := filter (\<lambda>c. co_course_id c \<noteq> cid) (courses db)\<rparr>)"
proof -
  let ?f = "\<lambda>r. if at_course_id r = Some cid then r\<lparr>at_course_id := None\<rparr> else r"
  have "list_all (\<lambda>r. at_id r \<le> attendance_seq db) (map ?f (attendance db))"
    using assms by (auto simp: store_inv_def list_all_iff)
  then show ?thesis
    using assms by (simp add: store_inv_def distinct_map_filter null_course_comp list_all_iff)
qed

lemma time_out_comp:
  "at_id \<circ> (\<lambda>r. if at_id r = i then r\<lparr>at_time_out := Some t\<rparr> else r) = at_id"
  "attendance_key \<circ> (\<lambda>r. if at_id r = i then r\<lparr>at_time_out := Some t\<rparr> else r) = attendance_key"
  by (simp_all add: fun_eq_iff attendance_key_def)

lemma course_time_out_comp:
  "ca_id \<circ> (\<lambda>r. if ca_student_id r = sid \<and> ca_course_id r = c \<and> ca_date r = d
                   then r\<lparr>ca_time_out := Some t\<rparr> else r) = ca_id"
  "course_attendance_key \<circ> (\<lambda>r. if ca_student_id r = sid \<and> ca_course_id r = c \<and> ca_date r = d
                   then r\<lparr>ca_time_out := Some t\<rparr> else r) = course_attendance_key"
  by (simp_all add: fun_eq_iff course_attendance_key_def)

lemma store_inv_update_time_out:
  assumes "store_inv db"
  shows "store_inv (update_time_out t i db)"
proof -
  let ?f = "\<lambda>r. if at_id r = i then r\<lparr>at_time_out := Some t\<rparr> else r"
  have "list_all (\<lambda>r. at_id r \<le> attendance_seq db) (map ?f (attendance db))"
    using assms by (auto simp: store_inv_def list_all_iff)
  then show ?thesis
    using assms by (simp add: store_inv_def update_time_out_def time_out_comp list_all_iff)
qed

lemma store_inv_update_course_time_out:
  assumes "store_inv db"
  shows "store_inv (update_course_time_out t sid c d db)"
proof -
  let ?f = "\<lambda>r. if ca_student_id r = sid \<and> ca_course_id r = c \<and> ca_date r = d
                   then r\<lparr>ca_time_out := Some t\<rparr> else r"
  have "list_all (\<lambda>r. ca_id r \<le> course_attendance_seq db) (map ?f (course_attendance db))"
    using assms by (auto simp: store_inv_def list_all_iff)
  moreover have "list_all (\<lambda>r. (ca_student_id r, ca_date r) \<in> set (map attendance_key (attendance db)))
      (map ?f (course_attendance db))"
    using assms by (auto simp: store_inv_def list_all_iff)
  ultimately show ?thesis
    using assms by (simp add: store_inv_def update_course_time_out_def course_time_out_comp list_all_iff)
qed

lemma store_inv_insert:
  assumes "store_inv db"
    and "(sid, d) \<notin> set (map attendance_key (attendance db))"
  shows "store_inv (db\<lparr>
       attendance := attendance db @
         [\<lparr>at_id = next_rowid (attendance_seq db) (map at_id (attendance db)),
           at_student_id = sid, at_date = d, at_time_in = ti,
           at_time_out = tout, at_verification_method = m, at_course_id = c,
           at_created_at = stamp\<rparr>],
       attendance_seq := next_rowid (attendance_seq db) (map at_id (attendance db)),
       course_attendance := (if b then course_attendance db @
         [\<lparr>ca_id = next_rowid (course_attendance_seq db) (map ca_id (course_attendance db)),
           ca_student_id = sid, ca_course_id = cc, ca_date = d,
           ca_time_in = ti', ca_time_out = tout', ca_verification_method = m',
           ca_created_at = stamp'\<rparr>] else course_attendance db),
       course_attendance_seq := (if b
          then next_rowid (course_attendance_seq db) (map ca_id (course_attendance db))
          else course_attendance_seq db)\<rparr>)"
proof -
  let ?i = "next_rowid (attendance_seq db) (map at_id (attendance db))"
  let ?j = "next_rowid (course_attendance_seq db) (map ca_id (course_attendance db))"
  have fresh: "?i \<notin> set (map at_id (attendance db))"
    using next_rowid_fresh [of ?i "map at_id (attendance db)" "attendance_seq db"] by auto
  have fresh': "?j \<notin> set (map ca_id (course_attendance db))"
    using next_rowid_fresh [of ?j "map ca_id (course_attendance db)" "course_attendance_seq db"] by auto
  have le: "\<And>r. r \<in> set (attendance db) \<Longrightarrow> at_id r \<le> ?i"
    using next_rowid_fresh [of _ "map at_id (attendance db)" "attendance_seq db"]
    by (simp add: less_imp_le)
  have le': "\<And>r. r \<in> set (course_attendance db) \<Longrightarrow> ca_id r \<le> ?j"
    using next_rowid_fresh [of _ "map ca_id (course_attendance db)" "course_attendance_seq db"]
    by (simp add: less_imp_le)
  have nokey: "(sid, cc, d) \<notin> set (map course_attendance_key (course_attendance db))"
  proof
    assume "(sid, cc, d) \<in> set (map course_attendance_key (course_attendance db))"
    then obtain r where "r \<in> set (course_attendance db)" "ca_student_id r = sid" "ca_date r = d"
      by (auto simp: course_attendance_key_def)
    with assms(1) have "(sid, d) \<in> set (map attendance_key (attendance db))"
      by (auto simp: store_inv_def list_all_iff)
    with assms(2) show False by simp
  qed
  show ?thesis
    using assms fresh fresh' nokey le le'
    by (cases b) (auto simp: store_inv_def list_all_iff attendance_key_def course_attendance_key_def)
qed

lemma covered_no_course_row:
  assumes "store_inv db" and "(sid, d) \<notin> set (map attendance_key (attendance db))"
  shows "(sid, c, d) \<notin> set (map (\<lambda>r. (ca_student_id r, ca_course_id r, ca_date r)) (course_attendance db))"
proof
  assume "(sid, c, d) \<in> set (map (\<lambda>r. (ca_student_id r, ca_course_id r, ca_date r)) (course_attendance db))"
  then obtain r where "r \<in> set (course_attendance db)" "ca_student_id r = sid" "ca_date r = d"
    by auto
  with assms(1) have "(sid, d) \<in> set (map attendance_key (attendance db))"
    by (auto simp: store_inv_def list_all_iff)
  with assms(2) show False by simp
qed

lemma step_store_inv:
  assumes "step db db'" and "store_inv db"
  shows "store_inv db'"
  using assms
proof (cases rule: step.cases)
  case (step_add_student stamp sid name email phone dept b)
  then show ?thesis
    using assms(2) store_inv_add_student [of db "\<lparr>st_student_id = sid, st_name = name, st_email = email,
      st_phone = phone, st_department = dept, st_created_at = stamp\<rparr>"]
    by (auto simp: add_student_SQLite split: if_splits)
next
  case (step_add_course stamp cid cname instructor schedule b)
  then show ?thesis
    using assms(2) store_inv_add_course [of db "\<lparr>co_course_id = cid, co_course_name = cname,
      co_instructor = instructor, co_schedule = schedule, co_created_at = stamp\<rparr>"]
    by (auto simp: add_course_SQLite split: if_splits)
next
  case (step_delete_student sid b)
  then show ?thesis
    using store_inv_delete_student [OF assms(2), of sid] by (simp add: delete_student_SQLite)
next
  case (step_delete_course cid b)
  then show ?thesis
    using store_inv_delete_course [OF assms(2), of cid] by (simp add: delete_course_SQLite)
next
  case (step_record_attendance clk sid m c b)
  show ?thesis
  proof (cases "find (\<lambda>r. at_student_id r = sid \<and> at_date r = clk_today clk) (attendance db)")
    case None
    then have nokey: "(sid, clk_today clk) \<notin> set (map attendance_key (attendance db))"
      by (simp add: find_None_key)
    have "db' = db\<lparr>
       attendance := attendance db @
         [\<lparr>at_id = next_rowid (attendance_seq db) (map at_id (attendance db)),
           at_student_id = sid, at_date = clk_today clk, at_time_in = Some (clk_now clk),
           at_time_out = None, at_verification_method = m, at_course_id = c,
           at_created_at = clk_stamp clk\<rparr>],
       attendance_seq := next_rowid (attendance_seq db) (map at_id (attendance db)),
       course_attendance := (if truthy c then course_attendance db @
         [\<lparr>ca_id = next_rowid (course_attendance_seq db) (map ca_id (course_attendance db)),
           ca_student_id = sid, ca_course_id = the c, ca_date = clk_today clk,
           ca_time_in = Some (clk_now clk), ca_time_out = None, ca_verification_method = m,
           ca_created_at = clk_stamp_course clk\<rparr>] else course_attendance db),
       course_attendance_seq := (if truthy c
          then next_rowid (course_attendance_seq db) (map ca_id (course_attendance db))
          else course_attendance_seq db)\<rparr>"
      using step_record_attendance
        record_attendance_create [OF nokey covered_no_course_row [OF assms(2) nokey]]
      by simp
    then show ?thesis
      using store_inv_insert [OF assms(2) nokey] by simp
  next
    case (Some r)
    then show ?thesis
      using step_record_attendance record_attendance_toggle [OF Some, of m c]
        store_inv_update_time_out [OF assms(2)] store_inv_update_course_time_out
      by (auto split: if_splits)
  qed
qed

lemma reachable_store_inv: "reachable db \<Longrightarrow> store_inv db"
  unfolding reachable_def
  by (induction rule: rtranclp_induct) (auto intro: store_inv_empty step_store_inv)

subsection \<open>The history of an attendance row\<close>

lemma same_fixed_fields_refl: "same_fixed_fields r r"
  by (simp add: same_fixed_fields_def)

lemma rows_kept_same:
  "attendance db' = attendance db \<Longrightarrow> attendance_seq db' = attendance_seq db \<Longrightarrow> rows_kept db db'"
  by (auto simp: rows_kept_def list_all_iff list_ex_iff intro: same_fixed_fields_refl)

lemma rows_kept_refl: "rows_kept db db"
  by (simp add: rows_kept_same)

lemma rows_kept_trans:
  assumes "rows_kept db db'" and "rows_kept db' db''"
  shows "rows_kept db db''"
proof -
  have seq: "attendance_seq db \<le> attendance_seq db'" "attendance_seq db' \<le> attendance_seq db''"
    using assms by (simp_all add: rows_kept_def)
  have "\<exists>r\<in>set (attendance db). same_fixed_fields r r''"
    if r'': "r'' \<in> set (attendance db'')" and le: "at_id r'' \<le> attendance_seq db" for r''
  proof -
    from r'' le seq assms(2) obtain r' where r': "r' \<in> set (attendance db')" "same_fixed_fields r' r''"
      by (auto simp: rows_kept_def list_all_iff list_ex_iff)
    then have "at_id r' \<le> attendance_seq db"
      using le by (simp add: same_fixed_fields_def)
    with r'(1) assms(1) obtain r where "r \<in> set (attendance db)" "same_fixed_fields r r'"
      by (auto simp: rows_kept_def list_all_iff list_ex_iff)
    with r'(2) show ?thesis
      by (auto simp: same_fixed_fields_def)
  qed
  with seq show ?thesis
    by (auto simp: rows_kept_def list_all_iff list_ex_iff)
qed

lemma rows_kept_delete_student:
  "rows_kept db (db\<lparr>
       attendance := filter (\<lambda>r. at_student_id r \<noteq> sid) (attendance db),
       course_attendance := cs, students := ss\<rparr>)"
  by (auto simp: rows_kept_def list_all_iff list_ex_iff intro: same_fixed_fields_refl)

lemma rows_kept_delete_course:
  "rows_kept db (db\<lparr>
       course_attendance := cs,
       attendance := map (\<lambda>r. if at_course_id r = Some cid then r\<lparr>at_course_id := None\<rparr> else r)
                       (attendance db),
       courses := cc\<rparr>)"
  by (auto simp: rows_kept_def list_all_iff list_ex_iff same_fixed_fields_def)

lemma rows_kept_update_time_out: "rows_kept db (update_time_out t i db)"
  by (auto simp: rows_kept_def update_time_out_def list_all_iff list_ex_iff same_fixed_fields_def)

lemma rows_kept_update_course_time_out: "rows_kept db (update_course_time_out t sid c d db)"
  by (simp add: rows_kept_same update_course_time_out_def)

lemma rows_kept_insert:
  "rows_kept db (db\<lparr>
       attendance := attendance db @
         [\<lparr>at_id = next_rowid (attendance_seq db) (map at_id (attendance db)),
           at_student_id = sid, at_date = d, at_time_in = ti,
           at_time_out = tout, at_verification_method = m, at_course_id = c,
           at_created_at = stamp\<rparr>],
       attendance_seq := next_rowid (attendance_seq db) (map at_id (attendance db)),
       course_attendance := cs, course_attendance_seq := n\<rparr>)"
  using next_rowid_seq [of "attendance_seq db" "map at_id (attendance db)"]
  by (auto simp: rows_kept_def list_all_iff list_ex_iff intro: same_fixed_fields_refl)

lemma step_rows_kept:
  assumes "step db db'" and "store_inv db"
  shows "rows_kept db db'"
  using assms(1)
proof (cases rule: step.cases)
  case (step_add_student stamp sid name email phone dept b)
  then show ?thesis
    by (auto simp: add_student_SQLite rows_kept_same split: if_splits)
next
  case (step_add_course stamp cid cname instructor schedule b)
  then show ?thesis
    by (auto simp: add_course_SQLite rows_kept_same split: if_splits)
next
  case (step_delete_student sid b)
  then show ?thesis
    using rows_kept_delete_student [where db = db and sid = sid] by (auto simp: delete_student_SQLite)
next
  case (step_delete_course cid b)
  then show ?thesis
    using rows_kept_delete_course [where db = db and cid = cid] by (auto simp: delete_course_SQLite)
next
  case (step_record_attendance clk sid m c b)
  show ?thesis
  proof (cases "find (\<lambda>r. at_student_id r = sid \<and> at_date r = clk_today clk) (attendance db)")
    case None
    then have nokey: "(sid, clk_today clk) \<notin> set (map attendance_key (attendance db))"
      by (simp add: find_None_key)
    show ?thesis
      using step_record_attendance
        record_attendance_create [OF nokey covered_no_course_row [OF assms(2) nokey]]
        rows_kept_insert [where db = db and sid = sid and d = "clk_today clk"]
      by auto
  next
    case (Some r)
    have "rows_kept db (update_course_time_out t sid' c' d (update_time_out t i db))" for t sid' c' d i
      by (rule rows_kept_trans [OF rows_kept_update_time_out rows_kept_update_course_time_out])
    then show ?thesis
      using step_record_attendance record_attendance_toggle [OF Some, of m c]
        rows_kept_update_time_out [of db]
      by (auto split: if_splits)
  qed
qed

lemma steps_store_inv: "rtranclp step db db' \<Longrightarrow> store_inv db \<Longrightarrow> store_inv db'"
  by (induction rule: rtranclp_induct) (auto intro: step_store_inv)

lemma steps_rows_kept: "rtranclp step db db' \<Longrightarrow> store_inv db \<Longrightarrow> rows_kept db db'"
proof (induction rule: rtranclp_induct)
  case base
  show ?case by (rule rows_kept_refl)
next
  case (step y z)
  then show ?case
    using steps_store_inv [of db y] step_rows_kept [of y z] rows_kept_trans by blast
qed

lemma distinct_ids_same_row:
  assumes "distinct (map at_id rs)" and "r \<in> set rs" and "r0 \<in> set rs" and "at_id r0 = at_id r"
  shows "r0 = r"
  using assms by (meson distinct_map inj_onD)

section \<open>The claims\<close>

subsection \<open>One row per student and day; the fields that never change (C2)\<close>

text \<open>
  C2 (amended): in every store that \<open>add_student\<close>, \<open>add_course\<close>,
  \<open>delete_student\<close>, \<open>delete_course\<close> and \<open>record_attendance\<close> reach from the empty
  store there is at most one attendance row per (student_id, date), and rowids identify
  rows. Whatever these operations do afterwards, a row that still carries the rowid of an
  attendance row of that store has the time_in, student_id, date, verification_method
  and created_at of that row: time_out and course_id are the only fields of an existing
  attendance row that an operation changes.
\<close>

theorem attendance_unique_time_in_fixed:
  assumes "reachable db"
  shows "distinct (map attendance_key (attendance db)) \<and>
         distinct (map at_id (attendance db)) \<and>
         (\<forall>db' r r'. rtranclp step db db' \<and> r \<in> set (attendance db) \<and>
              r' \<in> set (attendance db') \<and> at_id r' = at_id r \<longrightarrow>
            at_time_in r' = at_time_in r \<and> at_student_id r' = at_student_id r \<and>
            at_date r' = at_date r \<and> at_verification_method r' = at_verification_method r \<and>
            at_created_at r' = at_created_at r)"
proof -
  have inv: "store_inv db"
    using assms by (rule reachable_store_inv)
  have fixed: "at_time_in r' = at_time_in r \<and> at_student_id r' = at_student_id r \<and>
            at_date r' = at_date r \<and> at_verification_method r' = at_verification_method r \<and>
            at_created_at r' = at_created_at r"
    if steps: "rtranclp step db db'" and r: "r \<in> set (attendance db)"
      and r': "r' \<in> set (attendance db')" and id: "at_id r' = at_id r" for db' r r'
  proof -
    have "at_id r' \<le> attendance_seq db"
      using inv r id by (auto simp: store_inv_def list_all_iff)
    moreover have "rows_kept db db'"
      using steps inv by (rule steps_rows_kept)
    ultimately obtain r0 where r0: "r0 \<in> set (attendance db)" "same_fixed_fields r0 r'"
      using r' by (auto simp: rows_kept_def list_all_iff list_ex_iff)
    then have "at_id r0 = at_id r"
      using id by (simp add: same_fixed_fields_def)
    then have "r0 = r"
      using inv r r0(1) distinct_ids_same_row [of "attendance db" r r0]
      by (simp add: store_inv_def)
    with r0(2) show ?thesis
      by (simp add: same_fixed_fields_def)
  qed
  show ?thesis
    using inv fixed by (simp add: store_inv_def) blast
qed

text \<open>
  C2 as stated fails: time_out is not the only field that is mutated. The attendance row
  with rowid 1 that a check-in for course C1 creates has course_id C1, and after
  \<open>delete_course\<close> of C1 the row with rowid 1 has course_id NULL.
\<close>

lemma cx_checked_in_run:
  "record_attendance cx_clock ''S1'' ''id_pass'' (Some ''C1'') (SQLite empty_database)
     = Inr (True, SQLite cx_checked_in)"
  by (simp add: record_attendance_def record_attendance_try_def run_simps Let_def
      insert_attendance_def insert_course_attendance_def next_rowid_def
      empty_database_def cx_clock_def cx_checked_in_def cx_row_def cx_course_row_def)

lemma cx_course_deleted_run:
  "delete_course ''C1'' (SQLite cx_checked_in) = Inr (True, SQLite cx_course_deleted)"
  by (simp add: delete_course_SQLite cx_checked_in_def cx_course_deleted_def cx_row_def
      cx_course_row_def)

theorem delete_course_changes_course_id:
  "record_attendance cx_clock ''S1'' ''id_pass'' (Some ''C1'') (SQLite empty_database)
     = Inr (True, SQLite cx_checked_in) \<and>
   delete_course ''C1'' (SQLite cx_checked_in) = Inr (True, SQLite cx_course_deleted) \<and>
   map at_id (attendance cx_checked_in) = [1] \<and>
   map at_id (attendance cx_course_deleted) = [1] \<and>
   map at_course_id (attendance cx_checked_in) = [Some ''C1''] \<and>
   map at_course_id (attendance cx_course_deleted) = [None]"
  using cx_checked_in_run cx_course_deleted_run
  by (simp add: cx_checked_in_def cx_course_deleted_def cx_row_def)

theorem attendance_unique_time_in_fixed_witness:
  "reachable cx_checked_in \<and> rtranclp step cx_checked_in cx_course_deleted \<and>
   cx_row \<in> set (attendance cx_checked_in) \<and>
   cx_row\<lparr>at_course_id := None\<rparr> \<in> set (attendance cx_course_deleted) \<and>
   at_id (cx_row\<lparr>at_course_id := None\<rparr>) = at_id cx_row \<and>
   distinct (map attendance_key (attendance cx_checked_in)) \<and>
   at_time_in (cx_row\<lparr>at_course_id := None\<rparr>) = at_time_in cx_row"
proof -
  have r: "reachable cx_checked_in"
    unfolding reachable_def
    by (rule r_into_rtranclp) (rule step_record_attendance [OF cx_checked_in_run])
  have s: "rtranclp step cx_checked_in cx_course_deleted"
    by (rule r_into_rtranclp) (rule step_delete_course [OF cx_course_deleted_run])
  have m: "cx_row \<in> set (attendance cx_checked_in)"
    "cx_row\<lparr>at_course_id := None\<rparr> \<in> set (attendance cx_course_deleted)"
    "at_id (cx_row\<lparr>at_course_id := None\<rparr>) = at_id cx_row"
    by (simp_all add: cx_checked_in_def cx_course_deleted_def)
  show ?thesis
    using attendance_unique_time_in_fixed [OF r] r s m by blast
qed

subsection \<open>Check-in, check-out, next day (C1)\<close>







subsection \<open>No operation raises (C3)\<close>








subsection \<open>Students and courses (C6, C7, C8)\<close>










subsection \<open>A toggle for a course without a course row (C9)\<close>





subsection \<open>Statistics (C5)\<close>

lemma get_student_statistics_SQLite:
  "get_student_statistics today sid (SQLite db) =
     Inr (Some \<lparr>total_attendance = length (filter (\<lambda>r. at_student_id r = sid) (attendance db)),
       recent_attendance = length (filter (\<lambda>r. at_student_id r = sid \<and> at_date r \<ge> today - 30)
                                     (attendance db)),
       method_stats = dict (group_count (map at_verification_method
                        (filter (\<lambda>r. at_student_id r = sid) (attendance db))))\<rparr>)"
  by (simp add: get_student_statistics_def run_simps Let_def)

lemma dict_group_count:
  "dict (group_count ms) m = (if m \<in> set ms then Some (count_list ms m) else None)"
proof -
  have "rev (map (\<lambda>k. (k, count_list ms k)) (remdups ms))
      = map (\<lambda>k. (k, count_list ms k)) (rev (remdups ms))"
    by (simp add: rev_map)
  then show ?thesis
    by (simp add: dict_def group_count_def map_of_map_restrict restrict_map_def)
qed

lemma count_list_methods:
  "count_list (map at_verification_method (filter (\<lambda>r. at_student_id r = sid) rs)) m
     = length (filter (\<lambda>r. at_student_id r = sid \<and> at_verification_method r = m) rs)"
  by (induction rs) simp_all

lemma method_stats_of_store:
  "dict (group_count (map at_verification_method (filter (\<lambda>r. at_student_id r = sid) rs))) m =
     (if list_ex (\<lambda>r. at_student_id r = sid \<and> at_verification_method r = m) rs
      then Some (length (filter (\<lambda>r. at_student_id r = sid \<and> at_verification_method r = m) rs))
      else None)"
  by (auto simp: dict_group_count count_list_methods list_ex_iff)

lemma scenario_run:
  assumes "clk_today clk2 = clk_today clk1"
  shows "\<exists>db1 db2 db3.
     add_student stamp ''S001'' n e p d (SQLite empty_database) = Inr (True, SQLite db1) \<and>
     record_attendance clk1 ''S001'' ''id_pass'' c1 (SQLite db1) = Inr (True, SQLite db2) \<and>
     record_attendance clk2 ''S001'' ''id_pass'' c2 (SQLite db2) = Inr (False, SQLite db3) \<and>
     map at_student_id (attendance db3) = [''S001''] \<and>
     map at_verification_method (attendance db3) = [''id_pass'']"
proof -
  define db1 where "db1 = empty_database\<lparr>students := [\<lparr>st_student_id = ''S001'', st_name = n,
    st_email = e, st_phone = p, st_department = d, st_created_at = stamp\<rparr>]\<rparr>"
  have run1: "add_student stamp ''S001'' n e p d (SQLite empty_database) = Inr (True, SQLite db1)"
    by (simp add: add_student_SQLite db1_def empty_database_def)
  have empty: "attendance db1 = []" "course_attendance db1 = []"
    by (simp_all add: db1_def empty_database_def)
  define r where "r = \<lparr>at_id = next_rowid (attendance_seq db1) (map at_id (attendance db1)),
     at_student_id = ''S001'', at_date = clk_today clk1, at_time_in = Some (clk_now clk1),
     at_time_out = None, at_verification_method = ''id_pass'', at_course_id = c1,
     at_created_at = clk_stamp clk1\<rparr>"
  obtain db2 where run2: "record_attendance clk1 ''S001'' ''id_pass'' c1 (SQLite db1)
      = Inr (True, SQLite db2)" and att2: "attendance db2 = [r]"
    using record_attendance_create [where db = db1 and sid = "''S001''" and clk = clk1
        and c = c1 and m = "''id_pass''"]
    by (simp add: empty r_def)
  have found: "find (\<lambda>x. at_student_id x = ''S001'' \<and> at_date x = clk_today clk2) (attendance db2)
      = Some r"
    using assms by (simp add: att2 r_def)
  obtain db3 where run3: "record_attendance clk2 ''S001'' ''id_pass'' c2 (SQLite db2)
      = Inr (False, SQLite db3)"
    and att3: "attendance db3 = attendance (update_time_out (clk_now clk2) (at_id r) db2)"
    using record_attendance_toggle [OF found, where m = "''id_pass''" and c = c2]
    by (simp add: update_course_time_out_def)
  have "map at_student_id (attendance db3) = [''S001'']"
    "map at_verification_method (attendance db3) = [''id_pass'']"
    by (simp_all add: att3 update_time_out_def att2 r_def)
  with run1 run2 run3 show ?thesis
    by (intro exI [of _ db1] exI [of _ db2] exI [of _ db3]) simp
qed

text \<open>
  C5: on a usable store \<open>get_student_statistics\<close> returns the three counts over the
  attendance rows of the student: all of them, those dated no earlier than 30 days before
  today, and, for each verification method that occurs among them, the number of rows
  with that method (a method that does not occur is no key). In the scenario (add student
  S001 to the empty store, two \<open>record_attendance\<close> calls on one day) the total is 1 and
  method_stats is \<open>{"id_pass": 1}\<close>.
\<close>

theorem statistics_counts:
  "(\<exists>st. get_student_statistics today sid (SQLite db) = Inr (Some st) \<and>
      total_attendance st = length (filter (\<lambda>r. at_student_id r = sid) (attendance db)) \<and>
      recent_attendance st =
        length (filter (\<lambda>r. at_student_id r = sid \<and> at_date r \<ge> today - 30) (attendance db)) \<and>
      (\<forall>m. method_stats st m =
         (if list_ex (\<lambda>r. at_student_id r = sid \<and> at_verification_method r = m) (attendance db)
          then Some (length (filter (\<lambda>r. at_student_id r = sid \<and> at_verification_method r = m)
                               (attendance db)))
          else None))) \<and>
   (clk_today clk2 = clk_today clk1 \<longrightarrow>
     (\<exists>f1 f2 f3 st.
        add_student stamp ''S001'' n e p d (SQLite empty_database) = Inr (True, f1) \<and>
        record_attendance clk1 ''S001'' ''id_pass'' c1 f1 = Inr (True, f2) \<and>
        record_attendance clk2 ''S001'' ''id_pass'' c2 f2 = Inr (False, f3) \<and>
        get_student_statistics day ''S001'' f3 = Inr (Some st) \<and>
        total_attendance st = 1 \<and> method_stats st = [''id_pass'' \<mapsto> 1]))"
proof -
  have general: "\<exists>st. get_student_statistics today sid (SQLite db) = Inr (Some st) \<and>
      total_attendance st = length (filter (\<lambda>r. at_student_id r = sid) (attendance db)) \<and>
      recent_attendance st =
        length (filter (\<lambda>r. at_student_id r = sid \<and> at_date r \<ge> today - 30) (attendance db)) \<and>
      (\<forall>m. method_stats st m =
         (if list_ex (\<lambda>r. at_student_id r = sid \<and> at_verification_method r = m) (attendance db)
          then Some (length (filter (\<lambda>r. at_student_id r = sid \<and> at_verification_method r = m)
                               (attendance db)))
          else None))"
    by (simp add: get_student_statistics_SQLite method_stats_of_store)
  have scenario: "\<exists>f1 f2 f3 st.
        add_student stamp ''S001'' n e p d (SQLite empty_database) = Inr (True, f1) \<and>
        record_attendance clk1 ''S001'' ''id_pass'' c1 f1 = Inr (True, f2) \<and>
        record_attendance clk2 ''S001'' ''id_pass'' c2 f2 = Inr (False, f3) \<and>
        get_student_statistics day ''S001'' f3 = Inr (Some st) \<and>
        total_attendance st = 1 \<and> method_stats st = [''id_pass'' \<mapsto> 1]"
    if same: "clk_today clk2 = clk_today clk1"
  proof -
    obtain db1 db2 db3 where run:
      "add_student stamp ''S001'' n e p d (SQLite empty_database) = Inr (True, SQLite db1)"
      "record_attendance clk1 ''S001'' ''id_pass'' c1 (SQLite db1) = Inr (True, SQLite db2)"
      "record_attendance clk2 ''S001'' ''id_pass'' c2 (SQLite db2) = Inr (False, SQLite db3)"
      and rows: "map at_student_id (attendance db3) = [''S001'']"
        "map at_verification_method (attendance db3) = [''id_pass'']"
      using scenario_run [OF same, of stamp n e p d c1 c2] by (elim exE conjE)
    from rows obtain r where att: "attendance db3 = [r]" "at_student_id r = ''S001''"
      "at_verification_method r = ''id_pass''"
      by (cases "attendance db3") auto
    have "dict (group_count [''id_pass'']) = [''id_pass'' \<mapsto> 1]"
      by (simp add: fun_eq_iff dict_group_count)
    then have "\<exists>st. get_student_statistics day ''S001'' (SQLite db3) = Inr (Some st) \<and>
        total_attendance st = 1 \<and> method_stats st = [''id_pass'' \<mapsto> 1]"
      by (simp add: get_student_statistics_SQLite att)
    then obtain st where "get_student_statistics day ''S001'' (SQLite db3) = Inr (Some st)"
      "total_attendance st = 1" "method_stats st = [''id_pass'' \<mapsto> 1]"
      by (elim exE conjE)
    with run show ?thesis
      by (intro exI [of _ "SQLite db1"] exI [of _ "SQLite db2"] exI [of _ "SQLite db3"]
          exI [of _ st]) simp
  qed
  show ?thesis
    using general scenario by (intro conjI impI)
qed

theorem statistics_counts_witness:
  "clk_today clock_evening = clk_today cx_clock \<and>
   (\<exists>st. get_student_statistics 100 ''S1'' (SQLite ex_store) = Inr (Some st) \<and>
      total_attendance st = 2 \<and> recent_attendance st = 1 \<and>
      method_stats st ''id_pass'' = Some 2 \<and> method_stats st ''badge'' = None) \<and>
   (\<exists>f1 f2 f3 st.
        add_student 1 ''S001'' ''Ann'' [] [] [] (SQLite empty_database) = Inr (True, f1) \<and>
        record_attendance cx_clock ''S001'' ''id_pass'' None f1 = Inr (True, f2) \<and>
        record_attendance clock_evening ''S001'' ''id_pass'' None f2 = Inr (False, f3) \<and>
        get_student_statistics 100 ''S001'' f3 = Inr (Some st) \<and>
        total_attendance st = 1 \<and> method_stats st = [''id_pass'' \<mapsto> 1])"
proof -
  have h: "clk_today clock_evening = clk_today cx_clock"
    by (simp add: clock_evening_def cx_clock_def)
  have ex: "length (filter (\<lambda>r. at_student_id r = ''S1'') (attendance ex_store)) = 2"
    "length (filter (\<lambda>r. at_student_id r = ''S1'' \<and> at_date r \<ge> 100 - 30) (attendance ex_store)) = 1"
    "list_ex (\<lambda>r. at_student_id r = ''S1'' \<and> at_verification_method r = ''id_pass'') (attendance ex_store)"
    "length (filter (\<lambda>r. at_student_id r = ''S1'' \<and> at_verification_method r = ''id_pass'')
       (attendance ex_store)) = 2"
    "\<not> list_ex (\<lambda>r. at_student_id r = ''S1'' \<and> at_verification_method r = ''badge'') (attendance ex_store)"
    by (simp_all add: ex_store_def)
  show ?thesis
    using statistics_counts [of 100 "''S1''" ex_store clock_evening cx_clock 1 "''Ann''" "[]" "[]" "[]"
        None None 100] h ex
    by auto
qed

subsection \<open>The report (C4)\<close>

lemma mset_order_insert: "mset (order_insert le x xs) = add_mset x (mset xs)"
  by (induction xs) simp_all

lemma mset_order_by: "mset (order_by le xs) = mset xs"
  by (induction xs) (simp_all add: order_by_def mset_order_insert)


lemma sorted_order_insert:
  assumes total: "\<And>a b. le a b \<or> le b a"
    and trans: "\<And>a b c. le a b \<Longrightarrow> le b c \<Longrightarrow> le a c"
  shows "sorted_wrt le xs \<Longrightarrow> sorted_wrt le (order_insert le x xs)"
proof (induction xs)
  case Nil
  then show ?case by simp
next
  case (Cons y ys)
  have set_ins: "set (order_insert le x ys) = insert x (set ys)"
    using mset_order_insert [of le x ys] by (metis set_mset_mset set_mset_add_mset_insert)
  show ?case
  proof (cases "le x y")
    case True
    with Cons.prems show ?thesis
      by (auto intro: trans)
  next
    case False
    then have "le y x" using total [of x y] by simp
    with Cons False show ?thesis
      by (simp add: set_ins)
  qed
qed

lemma sorted_order_by:
  assumes "\<And>a b. le a b \<or> le b a" and "\<And>a b c. le a b \<Longrightarrow> le b c \<Longrightarrow> le a c"
  shows "sorted_wrt le (order_by le xs)"
proof (induction xs)
  case Nil
  then show ?case by (simp add: order_by_def)
next
  case (Cons x xs)
  then show ?case
    using sorted_order_insert [of le "order_by le xs" x] assms
    by (simp add: order_by_def)
qed

lemma sql_le_total: "sql_le a b \<or> sql_le b a"
  by (cases a; cases b) auto

lemma sql_le_trans: "sql_le a b \<Longrightarrow> sql_le b c \<Longrightarrow> sql_le a c"
  by (cases a; cases b; cases c) auto

lemma sorted_time_in_desc: "sorted_wrt time_in_desc (order_by time_in_desc xs)"
  by (rule sorted_order_by) (auto simp: time_in_desc_def sql_le_total intro: sql_le_trans)

lemma filter_key_find:
  "distinct (map f xs) \<Longrightarrow>
   filter (\<lambda>x. k = f x) xs = (case find (\<lambda>x. f x = k) xs of None \<Rightarrow> [] | Some x \<Rightarrow> [x])"
proof (induction xs)
  case Nil
  then show ?case by simp
next
  case (Cons x xs)
  show ?case
  proof (cases "f x = k")
    case True
    then have "filter (\<lambda>x. k = f x) xs = []"
      using Cons.prems by (auto simp: filter_empty_conv)
    with True show ?thesis by auto
  next
    case False
    with Cons show ?thesis by auto
  qed
qed

lemma left_join_courses_find:
  assumes "distinct (map co_course_id cs)"
  shows "left_join_courses a cs =
     [case at_course_id a of None \<Rightarrow> None | Some c \<Rightarrow> find (\<lambda>x. co_course_id x = c) cs]"
proof (cases "at_course_id a")
  case None
  then show ?thesis by (simp add: left_join_courses_def)
next
  case (Some c)
  have "filter (\<lambda>x. at_course_id a = Some (co_course_id x)) cs = filter (\<lambda>x. c = co_course_id x) cs"
    using Some by simp
  then show ?thesis
    using Some filter_key_find [OF assms, of c]
    by (simp add: left_join_courses_def split: option.splits)
qed

lemma report_where_filters_hold:
  "report_where sd ed sid cid a = filters_hold sd ed sid cid a"
  by (cases sid; cases cid) (auto simp: report_where_def filters_hold_def)

lemma report_of_row:
  assumes "distinct (map st_student_id ss)" and "distinct (map co_course_id (courses db))"
    and "ss = students db"
  shows "map report_select
      (filter (\<lambda>j. report_where sd ed sid cid (fst j))
         (concat (map (\<lambda>s. map (\<lambda>c. (a, s, c)) (left_join_courses a (courses db)))
                   (filter (\<lambda>s. at_student_id a = st_student_id s) ss))))
    = (if filters_hold sd ed sid cid a then (case joined_row db a of None \<Rightarrow> [] | Some r \<Rightarrow> [r])
       else [])"
  using filter_key_find [OF assms(1), of "at_student_id a"] assms(3)
  by (auto simp: left_join_courses_find [OF assms(2)] report_where_filters_hold joined_row_def
      report_select_def map_option_case split: option.splits)

lemma report_rows_distinct:
  assumes "distinct (map st_student_id (students db))" and "distinct (map co_course_id (courses db))"
  shows "map report_select
      (filter (\<lambda>j. report_where sd ed sid cid (fst j)) (report_from db))
    = report_rows_spec sd ed sid cid db"
proof -
  have "map report_select
      (filter (\<lambda>j. report_where sd ed sid cid (fst j))
        (concat (map (\<lambda>a.
           concat (map (\<lambda>s. map (\<lambda>c. (a, s, c)) (left_join_courses a (courses db)))
                   (filter (\<lambda>s. at_student_id a = st_student_id s) (students db)))) as)))
    = List.map_filter (joined_row db) (filter (filters_hold sd ed sid cid) as)" for as
  proof (induction as)
    case Nil
    then show ?case by (simp add: List.map_filter_simps)
  next
    case (Cons a as)
    then show ?case
      using report_of_row [OF assms refl, of sd ed sid cid a]
      by (simp add: List.map_filter_simps split: option.splits)
  qed
  then show ?thesis
    by (simp add: report_from_def report_rows_spec_def)
qed

lemma get_attendance_report_SQLite:
  "get_attendance_report sd ed sid cid (SQLite db) =
     Inr (order_by time_in_desc (map report_select
            (filter (\<lambda>j. report_where sd ed sid cid (fst j)) (report_from db))))"
  by (simp add: get_attendance_report_def run_simps)

text \<open>
  C4 (amended): on a store whose primary keys hold, \<open>get_attendance_report\<close> returns
  exactly one row for each attendance row that has a students row and satisfies every
  filter that applies, where a date filter applies when it is given and a student_id or
  course_id filter applies when it is given and is not the empty string. The row carries
  the student's name and the name of the course, NULL when the course_id is NULL or
  matches no course. The rows are in descending order of time_in, and the result is the
  empty list when no row qualifies.
\<close>

theorem report_rows_selected_and_ordered:
  assumes "distinct (map st_student_id (students db))"
    and "distinct (map co_course_id (courses db))"
  shows "\<exists>rows. get_attendance_report sd ed sid cid (SQLite db) = Inr rows \<and>
     mset rows = mset (report_rows_spec sd ed sid cid db) \<and>
     sorted_wrt (\<lambda>x y. sql_le (rr_time_in y) (rr_time_in x)) rows \<and>
     (report_rows_spec sd ed sid cid db = [] \<longrightarrow> rows = [])"
proof -
  define rows where "rows = order_by time_in_desc (report_rows_spec sd ed sid cid db)"
  have run: "get_attendance_report sd ed sid cid (SQLite db) = Inr rows"
    by (simp add: get_attendance_report_SQLite report_rows_distinct [OF assms] rows_def)
  have m: "mset rows = mset (report_rows_spec sd ed sid cid db)"
    by (simp add: rows_def mset_order_by)
  have s: "sorted_wrt (\<lambda>x y. sql_le (rr_time_in y) (rr_time_in x)) rows"
    using sorted_time_in_desc [of "report_rows_spec sd ed sid cid db"]
    by (simp add: rows_def time_in_desc_def [abs_def])
  have e: "report_rows_spec sd ed sid cid db = [] \<longrightarrow> rows = []"
    by (simp add: rows_def order_by_def)
  show ?thesis
    using run m s e by (intro exI [of _ rows] conjI)
qed

theorem report_rows_selected_and_ordered_witness:
  "distinct (map st_student_id (students ex_store)) \<and>
   distinct (map co_course_id (courses ex_store)) \<and>
   (\<exists>rows. get_attendance_report (Some 100) (Some 100) None (Some ''C1'') (SQLite ex_store)
       = Inr rows \<and>
     mset rows = mset [\<lparr>rr_time_in = Some 900, rr_student_id = ''S1'', rr_name = ''Ann'',
       rr_date = 100, rr_verification_method = ''id_pass'', rr_course_name = Some ''Algebra''\<rparr>])"
proof -
  have h: "distinct (map st_student_id (students ex_store))"
    "distinct (map co_course_id (courses ex_store))"
    by (simp_all add: ex_store_def)
  have spec: "report_rows_spec (Some 100) (Some 100) None (Some ''C1'') ex_store =
     [\<lparr>rr_time_in = Some 900, rr_student_id = ''S1'', rr_name = ''Ann'',
       rr_date = 100, rr_verification_method = ''id_pass'', rr_course_name = Some ''Algebra''\<rparr>]"
    by (simp add: report_rows_spec_def filters_hold_def joined_row_def ex_store_def
        List.map_filter_simps)
  show ?thesis
    using report_rows_selected_and_ordered [OF h, of "Some 100" "Some 100" None "Some ''C1''"] h
    by (simp add: spec)
qed

text \<open>
  C4 as stated fails for an empty-string filter: with \<open>student_id = ""\<close> the report holds
  the rows of the students S2 and S1, although no attendance row has the student_id
  \<open>""\<close>.
\<close>

theorem report_ignores_empty_student_id:
  "get_attendance_report None None (Some '''') None (SQLite ex_store) =
     Inr [\<lparr>rr_time_in = Some 930, rr_student_id = ''S2'', rr_name = ''Bob'',
            rr_date = 100, rr_verification_method = ''id_pass'', rr_course_name = None\<rparr>,
          \<lparr>rr_time_in = Some 900, rr_student_id = ''S1'', rr_name = ''Ann'',
            rr_date = 100, rr_verification_method = ''id_pass'',
            rr_course_name = Some ''Algebra''\<rparr>,
          \<lparr>rr_time_in = Some 500, rr_student_id = ''S1'', rr_name = ''Ann'',
            rr_date = 60, rr_verification_method = ''id_pass'', rr_course_name = None\<rparr>] \<and>
   filter (\<lambda>a. at_student_id a = '''') (attendance ex_store) = []"
  by (simp add: get_attendance_report_SQLite report_from_def left_join_courses_def
      report_where_def report_select_def order_by_def time_in_desc_def ex_store_def)

subsection \<open>Attendance rows without a student (C10)\<close>





end
